theory Spec2Isabelle
  imports Main "HOL-Library.AList"
begin

section \<open>JavaScript values\<close>

text \<open>
  The worker handles values whose shape it does not know statically: job payloads,
  the rows returned by \<^verbatim>\<open>$queryRawUnsafe\<close>, the positional parameters of a query.
  They are modelled by one type of dynamic values. Numbers are integers here (priorities,
  attempt counts and revisions are \<^verbatim>\<open>int\<close> columns); a \<open>Date\<close> carries its epoch
  milliseconds and is always a valid date. An object is the list of its own properties,
  looked up with \<open>map_of\<close>.
\<close>

type_synonym timestamp = int

datatype jsval =
    Undefined
  | Null
  | Bool bool
  | Num int
  | Str string
  | Date timestamp
  | Arr "jsval list"
  | Obj "(string \<times> jsval) list"

text \<open>JavaScript truthiness: \<^verbatim>\<open>undefined\<close>, \<^verbatim>\<open>null\<close>, \<^verbatim>\<open>false\<close>, \<^verbatim>\<open>0\<close>
  and \<^verbatim>\<open>""\<close> are falsy; dates, arrays (also the empty one) and objects are truthy.\<close>

fun truthy :: "jsval \<Rightarrow> bool" where
  "truthy Undefined = False"
| "truthy Null = False"
| "truthy (Bool b) = b"
| "truthy (Num n) = (n \<noteq> 0)"
| "truthy (Str s) = (s \<noteq> [])"
| "truthy (Date t) = True"
| "truthy (Arr xs) = True"
| "truthy (Obj ps) = True"

text \<open>The operator \<^verbatim>\<open>a || b\<close>.\<close>

definition js_or :: "jsval \<Rightarrow> jsval \<Rightarrow> jsval" where
  "js_or a b = (if truthy a then a else b)"

text \<open>Property access \<^verbatim>\<open>o[k]\<close> on an object: a missing property reads as \<^verbatim>\<open>undefined\<close>.\<close>

definition get_property :: "(string \<times> jsval) list \<Rightarrow> string \<Rightarrow> jsval" where
  "get_property ps k = (case map_of ps k of None \<Rightarrow> Undefined | Some v \<Rightarrow> v)"

text \<open>
  An optional property of a typed object (\<^verbatim>\<open>priority?: number\<close>) is absent, present
  and holding \<^verbatim>\<open>undefined\<close>, or present with a value. Object spread copies the last
  two and skips the first.
\<close>

datatype 'a field = Absent | Undef | Val 'a

fun read_field :: "('a \<Rightarrow> jsval) \<Rightarrow> 'a field \<Rightarrow> jsval" where
  "read_field f Absent = Undefined"
| "read_field f Undef = Undefined"
| "read_field f (Val v) = f v"

text \<open>\<^verbatim>\<open>{...a, ...b}\<close> for one property: \<open>b\<close>'s own property wins when it has one.\<close>

fun spread :: "'a field \<Rightarrow> 'a field \<Rightarrow> 'a field" where
  "spread a Absent = a"
| "spread a Undef = Undef"
| "spread a (Val v) = Val v"

section \<open>Errors\<close>

text \<open>
  A zod issue is kept as its code and its path; a failed \<^verbatim>\<open>safeParse\<close> carries the
  list of all issues found.
\<close>

datatype path_key = Key string | Index nat

datatype ZodIssue = ZodIssue (code: string) (path: "path_key list")

type_synonym 'a parse_result = "ZodIssue list + 'a"

text \<open>
  Every \<^verbatim>\<open>throw\<close> of the worker is one constructor; the comment gives the message of the
  \<^verbatim>\<open>Error\<close> the source builds. \<open>Thrown\<close> is an exception raised by a collaborator
  (the database client, the engine, a handler), \<open>TypeError\<close> the runtime's own error on
  reading a property of \<^verbatim>\<open>undefined\<close>.
\<close>

datatype error =
    WorkerNotInitialized
      \<comment> \<open>\<^verbatim>\<open>Worker not initialized\<close>\<close>
  | FailedToInitializeWorkerQueue
      \<comment> \<open>\<^verbatim>\<open>Failed to initialize worker queue\<close>\<close>
  | AddJobZodParsingError "ZodIssue list"
      \<comment> \<open>\<^verbatim>\<open>Failed to add job to queue, zod parsing error: ...\<close>\<close>
  | RemoveJobZodParsingError "ZodIssue list"
      \<comment> \<open>\<^verbatim>\<open>Failed to remove job from queue, zod parsing error: ...\<close>\<close>
  | FailedToRemoveJob error
      \<comment> \<open>\<^verbatim>\<open>Failed to remove job from queue, ${e}}\<close>, \<open>e\<close> the exception caught\<close>
  | UnknownMessageType string
      \<comment> \<open>\<^verbatim>\<open>Unknown message type: ...\<close>\<close>
  | NoTaskForMessageType string
      \<comment> \<open>\<^verbatim>\<open>No task for message type: ...\<close>\<close>
  | NoRecurringTaskForMessageType string
      \<comment> \<open>\<^verbatim>\<open>No recurring task for message type: ...\<close>\<close>
  | FailedToParseRecurringTaskPayload "ZodIssue list"
      \<comment> \<open>\<^verbatim>\<open>Failed to parse recurring task payload: ...\<close>\<close>
  | ZodError "ZodIssue list"
      \<comment> \<open>thrown by \<^verbatim>\<open>schema.parse\<close>\<close>
  | TypeError
  | Thrown string

section \<open>The schemas\<close>

text \<open>
  The zod combinators the source uses, as parsers from a dynamic value. The two
  coercions go through the runtime: \<^verbatim>\<open>String(v)\<close> and \<^verbatim>\<open>new Date(v)\<close> are parameters
  (\<open>None\<close> is \<^verbatim>\<open>Invalid Date\<close>).
\<close>

definition invalid_type :: "'a parse_result" where
  "invalid_type = Inl [ZodIssue ''invalid_type'' []]"

definition z_string :: "jsval \<Rightarrow> string parse_result" where
  "z_string v = (case v of Str s \<Rightarrow> Inr s | _ \<Rightarrow> invalid_type)"

definition z_number :: "jsval \<Rightarrow> int parse_result" where
  "z_number v = (case v of Num n \<Rightarrow> Inr n | _ \<Rightarrow> invalid_type)"

definition z_boolean :: "jsval \<Rightarrow> bool parse_result" where
  "z_boolean v = (case v of Bool b \<Rightarrow> Inr b | _ \<Rightarrow> invalid_type)"

definition z_unknown :: "jsval \<Rightarrow> jsval parse_result" where
  "z_unknown v = Inr v"

definition z_nullable :: "(jsval \<Rightarrow> 'a parse_result) \<Rightarrow> jsval \<Rightarrow> 'a option parse_result" where
  "z_nullable p v =
     (case v of
        Null \<Rightarrow> Inr None
      | _ \<Rightarrow> (case p v of Inl is \<Rightarrow> Inl is | Inr x \<Rightarrow> Inr (Some x)))"

definition z_coerce_string :: "(jsval \<Rightarrow> string) \<Rightarrow> jsval \<Rightarrow> string parse_result" where
  "z_coerce_string to_string v = Inr (to_string v)"

definition z_coerce_date :: "(jsval \<Rightarrow> timestamp option) \<Rightarrow> jsval \<Rightarrow> timestamp parse_result" where
  "z_coerce_date new_date v =
     (case new_date v of None \<Rightarrow> Inl [ZodIssue ''invalid_date'' []] | Some t \<Rightarrow> Inr t)"

text \<open>Issues found below a key or an index get it in front of their path.\<close>

definition under :: "path_key \<Rightarrow> 'a parse_result \<Rightarrow> 'a parse_result" where
  "under k r =
     (case r of
        Inl is \<Rightarrow> Inl (map (\<lambda>i. ZodIssue (code i) (k # path i)) is)
      | Inr x \<Rightarrow> Inr x)"

text \<open>A parse of several parts succeeds when all do, and collects the issues of all.\<close>

fun both :: "('a \<Rightarrow> 'b) parse_result \<Rightarrow> 'a parse_result \<Rightarrow> 'b parse_result" where
  "both (Inr f) (Inr x) = Inr (f x)"
| "both (Inl is) (Inr x) = Inl is"
| "both (Inr f) (Inl js) = Inl js"
| "both (Inl is) (Inl js) = Inl (is @ js)"

fun collect :: "'a parse_result list \<Rightarrow> 'a list parse_result" where
  "collect [] = Inr []"
| "collect (r # rs) = both (both (Inr Cons) r) (collect rs)"

definition z_key :: "(string \<times> jsval) list \<Rightarrow> string \<Rightarrow> (jsval \<Rightarrow> 'a parse_result) \<Rightarrow> 'a parse_result" where
  "z_key ps k p = under (Key k) (p (get_property ps k))"

definition z_array :: "(jsval \<Rightarrow> 'a parse_result) \<Rightarrow> jsval \<Rightarrow> 'a list parse_result" where
  "z_array p v =
     (case v of
        Arr xs \<Rightarrow> collect (map (\<lambda>(i, x). under (Index i) (p x)) (zip [0..<length xs] xs))
      | _ \<Rightarrow> invalid_type)"

definition z_record :: "(jsval \<Rightarrow> 'a parse_result) \<Rightarrow> jsval \<Rightarrow> (string \<times> 'a) list parse_result" where
  "z_record p v =
     (case v of
        Obj ps \<Rightarrow> collect (map (\<lambda>(k, x). both (Inr (Pair k)) (under (Key k) (p x))) ps)
      | _ \<Rightarrow> invalid_type)"

text \<open>\<^verbatim>\<open>RecurringTaskPayload\<close>, the output type of the inner object of the cron schema.\<close>

record RecurringTaskPayload =
  ts :: timestamp
  backfilled :: bool

text \<open>The same value as the object a handler receives: the properties the schema declares.\<close>

definition RecurringTaskPayload_properties :: "RecurringTaskPayload \<Rightarrow> (string \<times> jsval) list" where
  "RecurringTaskPayload_properties p = [(''ts'', Date (ts p)), (''backfilled'', Bool (backfilled p))]"

text \<open>The output of \<^verbatim>\<open>RawCronPayloadSchema\<close>; \<open>cron\<close> is the property \<^verbatim>\<open>_cron\<close>.\<close>

record RawCronPayload =
  cron :: RecurringTaskPayload

definition RawCronPayloadSchema :: "(jsval \<Rightarrow> timestamp option) \<Rightarrow> jsval \<Rightarrow> RawCronPayload parse_result" where
  "RawCronPayloadSchema new_date v =
     (case v of
        Obj ps \<Rightarrow>
          both (Inr (\<lambda>c. \<lparr>cron = c\<rparr>))
            (z_key ps ''_cron''
               (\<lambda>c. case c of
                  Obj cs \<Rightarrow>
                    both (both (Inr (\<lambda>t b. \<lparr>ts = t, backfilled = b\<rparr>))
                            (z_key cs ''ts'' (z_coerce_date new_date)))
                      (z_key cs ''backfilled'' z_boolean)
                | _ \<Rightarrow> invalid_type))
      | _ \<Rightarrow> invalid_type)"

text \<open>The job record, the output type of \<^verbatim>\<open>GraphileJobSchema\<close>. Three fields are
  renamed: \<open>job_id\<close> is \<^verbatim>\<open>id\<close>, \<open>job_priority\<close> is \<^verbatim>\<open>priority\<close>, \<open>job_flags\<close> is
  \<^verbatim>\<open>flags\<close>.\<close>

record GraphileJob =
  job_id :: string
  queue_name :: "string option"
  task_identifier :: string
  payload :: jsval
  job_priority :: int
  run_at :: timestamp
  attempts :: int
  max_attempts :: int
  last_error :: "string option"
  created_at :: timestamp
  updated_at :: timestamp
  key :: "string option"
  revision :: int
  locked_at :: "timestamp option"
  locked_by :: "string option"
  job_flags :: "(string \<times> bool) list option"

definition mk_job ::
  "string \<Rightarrow> string option \<Rightarrow> string \<Rightarrow> jsval \<Rightarrow> int \<Rightarrow> timestamp \<Rightarrow> int \<Rightarrow> int \<Rightarrow> string option \<Rightarrow>
   timestamp \<Rightarrow> timestamp \<Rightarrow> string option \<Rightarrow> int \<Rightarrow> timestamp option \<Rightarrow> string option \<Rightarrow>
   (string \<times> bool) list option \<Rightarrow> GraphileJob" where
  "mk_job i q t p pr ra a ma le ca ua k r la lb fl =
     \<lparr>job_id = i, queue_name = q, task_identifier = t, payload = p, job_priority = pr,
      run_at = ra, attempts = a, max_attempts = ma, last_error = le, created_at = ca,
      updated_at = ua, key = k, revision = r, locked_at = la, locked_by = lb, job_flags = fl\<rparr>"

definition GraphileJobSchema ::
  "(jsval \<Rightarrow> string) \<Rightarrow> (jsval \<Rightarrow> timestamp option) \<Rightarrow> jsval \<Rightarrow> GraphileJob parse_result" where
  "GraphileJobSchema to_string new_date v =
     (case v of
        Obj ps \<Rightarrow>
          both (both (both (both (both (both (both (both (both (both (both (both (both (both (both (both
            (Inr mk_job)
            (z_key ps ''id'' (z_coerce_string to_string)))
            (z_key ps ''queue_name'' (z_nullable z_string)))
            (z_key ps ''task_identifier'' z_string))
            (z_key ps ''payload'' z_unknown))
            (z_key ps ''priority'' z_number))
            (z_key ps ''run_at'' (z_coerce_date new_date)))
            (z_key ps ''attempts'' z_number))
            (z_key ps ''max_attempts'' z_number))
            (z_key ps ''last_error'' (z_nullable z_string)))
            (z_key ps ''created_at'' (z_coerce_date new_date)))
            (z_key ps ''updated_at'' (z_coerce_date new_date)))
            (z_key ps ''key'' (z_nullable z_string)))
            (z_key ps ''revision'' z_number))
            (z_key ps ''locked_at'' (z_nullable (z_coerce_date new_date))))
            (z_key ps ''locked_by'' (z_nullable z_string)))
            (z_key ps ''flags'' (z_nullable (z_record z_boolean)))
      | _ \<Rightarrow> invalid_type)"

definition AddJobResultsSchema ::
  "(jsval \<Rightarrow> string) \<Rightarrow> (jsval \<Rightarrow> timestamp option) \<Rightarrow> jsval \<Rightarrow> GraphileJob list parse_result" where
  "AddJobResultsSchema to_string new_date = z_array (GraphileJobSchema to_string new_date)"

section \<open>The worker's data\<close>

text \<open>\<^verbatim>\<open>TaskSpec\<close> of the engine: what an add-job call can say about the job.\<close>

datatype JobKeyMode = Replace | PreserveRunAt | UnsafeDedupe

fun jobKeyMode_str :: "JobKeyMode \<Rightarrow> string" where
  "jobKeyMode_str Replace = ''replace''"
| "jobKeyMode_str PreserveRunAt = ''preserve_run_at''"
| "jobKeyMode_str UnsafeDedupe = ''unsafe_dedupe''"

record TaskSpec =
  queueName :: "string field"
  runAt :: "timestamp field"
  maxAttempts :: "int field"
  jobKey :: "string field"
  priority :: "int field"
  jobKeyMode :: "JobKeyMode field"
  flags :: "string list field"

text \<open>A transactional context and an engine handle are known by their identity.\<close>

type_synonym PrismaClientOrTransaction = nat
type_synonym GraphileRunner = nat
type_synonym RunnerOptions = jsval
type_synonym CronItemOptions = jsval
type_synonym ParsedCronItems = jsval

record ZodWorkerEnqueueOptions = TaskSpec +
  tx :: "PrismaClientOrTransaction field"

record ZodWorkerDequeueOptions =
  dequeue_tx :: "PrismaClientOrTransaction field"

text \<open>
  An entry of \<^verbatim>\<open>ZodTasks\<close>. Its \<^verbatim>\<open>queueName\<close> is a string or a function of the payload.
  The fields carry the prefix \<open>task_\<close> to keep them apart from those of \<^verbatim>\<open>TaskSpec\<close>.
  A handler acts on the world outside the worker, of type \<open>'e\<close>, and may throw.
\<close>

datatype queue_name = Static string | Dynamic "jsval \<Rightarrow> string"

record 'e ZodTask =
  task_queueName :: "queue_name field"
  task_priority :: "int field"
  task_maxAttempts :: "int field"
  task_jobKeyMode :: "JobKeyMode field"
  task_flags :: "string list field"
  handler :: "jsval \<Rightarrow> GraphileJob \<Rightarrow> 'e \<Rightarrow> (error + unit) \<times> 'e"

record 'e ZodRecurringTask =
  pattern :: string
  options :: "CronItemOptions field"
  recurring_handler :: "RecurringTaskPayload \<Rightarrow> GraphileJob \<Rightarrow> 'e \<Rightarrow> (error + unit) \<times> 'e"

record CronItem =
  item_pattern :: string
  item_identifier :: string
  item_task :: string
  item_options :: jsval

record JobHelpers =
  job :: GraphileJob

text \<open>
  The two closures that \<^verbatim>\<open>#createTaskListFromTasks\<close> puts into the task list capture
  the key only; \<open>Task\<close> names them. A task list is an object: assigning to a key that
  exists replaces the value in place, a new key goes to the end (\<open>AList.update\<close>).
\<close>

datatype Task = HandleMessage string | HandleRecurringTask string

type_synonym TaskList = "(string \<times> Task) list"

record run_args =
  run_options :: RunnerOptions
  taskList :: TaskList
  parsedCronItems :: ParsedCronItems

text \<open>
  A raw query: the statement \<^verbatim>\<open>SELECT * FROM f(name => $n::type, ...)\<close> with its
  named arguments and their placeholders, and the positional values. The database
  binds placeholder \<^verbatim>\<open>$n\<close> to the \<open>n\<close>-th value.
\<close>

datatype sql = SelectAllFrom string "(string \<times> nat \<times> string) list"

record raw_query =
  statement :: sql
  params :: "jsval list"

definition bound_value :: "raw_query \<Rightarrow> string \<Rightarrow> jsval option" where
  "bound_value q name =
     (case statement q of
        SelectAllFrom f args \<Rightarrow>
          (case map_of args name of
             None \<Rightarrow> None
           | Some (n, ty) \<Rightarrow>
               if 1 \<le> n \<and> n \<le> length (params q) then Some (params q ! (n - 1)) else None))"

text \<open>What the logger received: one constructor for each call of the logger in the source.\<close>

datatype log_entry =
    DebugInitializing RunnerOptions
      \<comment> \<open>\<^verbatim>\<open>Initializing worker queue with options\<close>\<close>
  | DebugEnqueued string jsval TaskSpec "GraphileJob option"
      \<comment> \<open>\<^verbatim>\<open>Enqueued worker task\<close>: identifier, payload, spec, job\<close>
  | DebugDequeued "GraphileJob option"
      \<comment> \<open>\<^verbatim>\<open>dequeued worker task\<close>: job\<close>
  | DebugReceivedWorkerTask string jsval GraphileJob
      \<comment> \<open>\<^verbatim>\<open>Received worker task, calling handler\<close>: type, payload, job\<close>
  | DebugReceivedRecurringTask string jsval GraphileJob
      \<comment> \<open>\<^verbatim>\<open>Received recurring task, calling handler\<close>: type, raw payload, job\<close>
  | ErrorFailedToHandleRecurringTask error RawCronPayload
      \<comment> \<open>\<^verbatim>\<open>Failed to handle recurring task\<close>: error, payload\<close>

fun is_error_log :: "log_entry \<Rightarrow> bool" where
  "is_error_log (ErrorFailedToHandleRecurringTask e p) = True"
| "is_error_log _ = False"

text \<open>The operations the worker asks of its collaborators, in the order it asks them.\<close>

datatype call =
    ParseCronItems "CronItem list"
  | GraphileRun run_args
  | RunnerStop GraphileRunner
  | QueryRawUnsafe PrismaClientOrTransaction raw_query
  | TaskHandler string jsval GraphileJob
  | RecurringTaskHandler string RecurringTaskPayload GraphileJob

fun is_GraphileRun :: "call \<Rightarrow> bool" where
  "is_GraphileRun (GraphileRun a) = True"
| "is_GraphileRun _ = False"

text \<open>
  The collaborators: the engine (\<^verbatim>\<open>run\<close>, \<^verbatim>\<open>parseCronItems\<close>, \<^verbatim>\<open>runner.stop\<close>),
  the database client (\<^verbatim>\<open>$queryRawUnsafe\<close>) and the runtime (\<^verbatim>\<open>JSON.stringify\<close>,
  \<^verbatim>\<open>String\<close>, \<^verbatim>\<open>new Date\<close>). Those with effects act on the outside world \<open>'e\<close> and
  may throw. \<^verbatim>\<open>run\<close> may resolve to no runner.
\<close>

record 'e env =
  graphileRun :: "run_args \<Rightarrow> 'e \<Rightarrow> (error + GraphileRunner option) \<times> 'e"
  parseCronItems :: "CronItem list \<Rightarrow> error + ParsedCronItems"
  runner_stop :: "GraphileRunner \<Rightarrow> 'e \<Rightarrow> (error + unit) \<times> 'e"
  queryRawUnsafe :: "PrismaClientOrTransaction \<Rightarrow> raw_query \<Rightarrow> 'e \<Rightarrow> (error + jsval) \<times> 'e"
  JSON_stringify :: "jsval \<Rightarrow> jsval"
  js_String :: "jsval \<Rightarrow> string"
  new_Date :: "jsval \<Rightarrow> timestamp option"

text \<open>
  The worker as constructed: its five fields that never change. A registry is an
  object, kept as the list of its entries in the order of \<^verbatim>\<open>Object.entries\<close>; a
  validator of the catalog returns the parsed payload or the issues.
\<close>

record 'e ZodWorker =
  schema :: "(string \<times> (jsval \<Rightarrow> jsval parse_result)) list"
  prisma :: PrismaClientOrTransaction
  runnerOptions :: RunnerOptions
  tasks :: "(string \<times> 'e ZodTask) list"
  recurringTasks :: "(string \<times> 'e ZodRecurringTask) list option"

text \<open>
  What changes: the field \<^verbatim>\<open>#runner\<close>, the log, the operations issued so far and
  the outside world.
\<close>

record 'e state =
  runner :: "GraphileRunner option"
  logs :: "log_entry list"
  calls :: "call list"
  ext :: 'e

definition logger :: "log_entry \<Rightarrow> 'e state \<Rightarrow> 'e state" where
  "logger l s = s\<lparr>logs := logs s @ [l]\<rparr>"

definition called :: "call \<Rightarrow> 'e \<Rightarrow> 'e state \<Rightarrow> 'e state" where
  "called c e s = s\<lparr>calls := calls s @ [c], ext := e\<rparr>"

section \<open>Starting and stopping\<close>

definition createCronItemsFromRecurringTasks :: "'e ZodWorker \<Rightarrow> CronItem list" where
  "createCronItemsFromRecurringTasks w =
     (case recurringTasks w of
        None \<Rightarrow> []
      | Some rts \<Rightarrow>
          fold (\<lambda>(key, task) cronItems.
                  cronItems @ [\<lparr>item_pattern = pattern task, item_identifier = key,
                                item_task = key, item_options = read_field id (options task)\<rparr>])
               rts [])"

definition createTaskListFromTasks :: "'e ZodWorker \<Rightarrow> TaskList" where
  "createTaskListFromTasks w =
     (let taskList = fold (\<lambda>(key, task). AList.update key (HandleMessage key)) (tasks w) []
      in fold (\<lambda>(key, task). AList.update key (HandleRecurringTask key))
              (case recurringTasks w of None \<Rightarrow> [] | Some rts \<Rightarrow> rts) taskList)"

definition initialize :: "'e env \<Rightarrow> 'e ZodWorker \<Rightarrow> 'e state \<Rightarrow> (error + bool) \<times> 'e state" where
  "initialize env w s =
     (case runner s of
        Some r \<Rightarrow> (Inr True, s)
      | None \<Rightarrow>
          (let s1 = logger (DebugInitializing (runnerOptions w)) s;
               cronItems = createCronItemsFromRecurringTasks w;
               s2 = called (ParseCronItems cronItems) (ext s1) s1
           in case parseCronItems env cronItems of
                Inl err \<Rightarrow> (Inl err, s2)
              | Inr parsed \<Rightarrow>
                  (let args = \<lparr>run_options = runnerOptions w,
                               taskList = createTaskListFromTasks w,
                               parsedCronItems = parsed\<rparr>
                   in case graphileRun env args (ext s2) of
                        (Inl err, e) \<Rightarrow> (Inl err, called (GraphileRun args) e s2)
                      | (Inr r, e) \<Rightarrow>
                          (let s3 = (called (GraphileRun args) e s2)\<lparr>runner := r\<rparr>
                           in case r of
                                None \<Rightarrow> (Inl FailedToInitializeWorkerQueue, s3)
                              | Some h \<Rightarrow> (Inr True, s3)))))"

definition stop :: "'e env \<Rightarrow> 'e state \<Rightarrow> (error + unit) \<times> 'e state" where
  "stop env s =
     (case runner s of
        None \<Rightarrow> (Inr (), s)
      | Some r \<Rightarrow>
          (case runner_stop env r (ext s) of
             (res, e) \<Rightarrow> (res, called (RunnerStop r) e s)))"

section \<open>Adding and removing jobs\<close>

definition add_job_statement :: sql where
  "add_job_statement =
     SelectAllFrom ''graphile_worker.add_job''
       [(''identifier'', 1, ''text''),
        (''payload'', 2, ''json''),
        (''queue_name'', 3, ''text''),
        (''run_at'', 4, ''timestamptz''),
        (''max_attempts'', 5, ''int''),
        (''job_key'', 6, ''text''),
        (''priority'', 7, ''int''),
        (''flags'', 8, ''text[]''),
        (''job_key_mode'', 9, ''text'')]"

definition add_job_query :: "'e env \<Rightarrow> string \<Rightarrow> jsval \<Rightarrow> TaskSpec \<Rightarrow> raw_query" where
  "add_job_query env identifier pl spec =
     \<lparr>statement = add_job_statement,
      params =
        [Str identifier,
         JSON_stringify env pl,
         js_or (read_field Str (queueName spec)) Null,
         js_or (read_field Date (runAt spec)) Null,
         js_or (read_field Num (maxAttempts spec)) Null,
         js_or (read_field Str (jobKey spec)) Null,
         js_or (read_field Num (priority spec)) Null,
         js_or (read_field (\<lambda>m. Str (jobKeyMode_str m)) (jobKeyMode spec)) Null,
         js_or (read_field (\<lambda>fs. Arr (map Str fs)) (flags spec)) Null]\<rparr>"

text \<open>\<^verbatim>\<open>rows.data[0]\<close>: the first row, \<^verbatim>\<open>undefined\<close> (\<open>None\<close>) when there is none.\<close>

definition first_row :: "GraphileJob list \<Rightarrow> GraphileJob option" where
  "first_row rows = (case rows of [] \<Rightarrow> None | j # js \<Rightarrow> Some j)"

definition addJob ::
  "'e env \<Rightarrow> string \<Rightarrow> jsval \<Rightarrow> TaskSpec \<Rightarrow> PrismaClientOrTransaction \<Rightarrow> 'e state \<Rightarrow>
   (error + GraphileJob option) \<times> 'e state" where
  "addJob env identifier pl spec t s =
     (let q = add_job_query env identifier pl spec
      in case queryRawUnsafe env t q (ext s) of
           (Inl err, e) \<Rightarrow> (Inl err, called (QueryRawUnsafe t q) e s)
         | (Inr results, e) \<Rightarrow>
             (case AddJobResultsSchema (js_String env) (new_Date env) results of
                Inl is \<Rightarrow> (Inl (AddJobZodParsingError is), called (QueryRawUnsafe t q) e s)
              | Inr rows \<Rightarrow> (Inr (first_row rows), called (QueryRawUnsafe t q) e s)))"

text \<open>\<^verbatim>\<open>omit(options ?? {}, ["tx"])\<close>.\<close>

definition omit_tx :: "ZodWorkerEnqueueOptions option \<Rightarrow> TaskSpec" where
  "omit_tx opts =
     (case opts of
        None \<Rightarrow> \<lparr>queueName = Absent, runAt = Absent, maxAttempts = Absent, jobKey = Absent,
                 priority = Absent, jobKeyMode = Absent, flags = Absent\<rparr>
      | Some given \<Rightarrow>
          \<lparr>queueName = queueName given, runAt = runAt given, maxAttempts = maxAttempts given,
           jobKey = jobKey given, priority = priority given, jobKeyMode = jobKeyMode given,
           flags = flags given\<rparr>)"

text \<open>\<^verbatim>\<open>options?.tx ?? this.#prisma\<close>.\<close>

definition enqueue_tx :: "'e ZodWorker \<Rightarrow> ZodWorkerEnqueueOptions option \<Rightarrow> PrismaClientOrTransaction" where
  "enqueue_tx w opts =
     (case opts of
        None \<Rightarrow> prisma w
      | Some given \<Rightarrow> (case tx given of Val t \<Rightarrow> t | _ \<Rightarrow> prisma w))"

text \<open>
  The spec that \<^verbatim>\<open>enqueue\<close> builds: the spread of the options and then of the task,
  and the assignment to \<^verbatim>\<open>spec.queueName\<close> when the task's queue name is a function.
  A task has no \<^verbatim>\<open>runAt\<close> and no \<^verbatim>\<open>jobKey\<close>.
\<close>

definition enqueue_spec :: "'e ZodTask \<Rightarrow> jsval \<Rightarrow> TaskSpec \<Rightarrow> TaskSpec" where
  "enqueue_spec task pl optionsWithoutTx =
     \<lparr>queueName =
        (case task_queueName task of
           Val (Dynamic f) \<Rightarrow> Val (f pl)
         | Val (Static q) \<Rightarrow> Val q
         | Undef \<Rightarrow> Undef
         | Absent \<Rightarrow> queueName optionsWithoutTx),
      runAt = runAt optionsWithoutTx,
      maxAttempts = spread (maxAttempts optionsWithoutTx) (task_maxAttempts task),
      jobKey = jobKey optionsWithoutTx,
      priority = spread (priority optionsWithoutTx) (task_priority task),
      jobKeyMode = spread (jobKeyMode optionsWithoutTx) (task_jobKeyMode task),
      flags = spread (flags optionsWithoutTx) (task_flags task)\<rparr>"

definition enqueue ::
  "'e env \<Rightarrow> 'e ZodWorker \<Rightarrow> string \<Rightarrow> jsval \<Rightarrow> ZodWorkerEnqueueOptions option \<Rightarrow> 'e state \<Rightarrow>
   (error + GraphileJob option) \<times> 'e state" where
  "enqueue env w identifier pl opts s =
     (case runner s of
        None \<Rightarrow> (Inl WorkerNotInitialized, s)
      | Some r \<Rightarrow>
          (case map_of (tasks w) identifier of
             None \<Rightarrow> (Inl TypeError, s)
           | Some task \<Rightarrow>
               (let spec = enqueue_spec task pl (omit_tx opts)
                in case addJob env identifier pl spec (enqueue_tx w opts) s of
                     (Inl err, s1) \<Rightarrow> (Inl err, s1)
                   | (Inr j, s1) \<Rightarrow> (Inr j, logger (DebugEnqueued identifier pl spec j) s1))))"

definition remove_job_query :: "string \<Rightarrow> raw_query" where
  "remove_job_query jk =
     \<lparr>statement = SelectAllFrom ''graphile_worker.remove_job'' [(''job_key'', 1, ''text'')],
      params = [Str jk]\<rparr>"

text \<open>The body of the \<^verbatim>\<open>try\<close> block of \<^verbatim>\<open>#removeJob\<close>, and the function with its
  \<^verbatim>\<open>catch\<close>.\<close>

definition removeJob_try ::
  "'e env \<Rightarrow> string \<Rightarrow> PrismaClientOrTransaction \<Rightarrow> 'e state \<Rightarrow>
   (error + GraphileJob option) \<times> 'e state" where
  "removeJob_try env jk t s =
     (let q = remove_job_query jk
      in case queryRawUnsafe env t q (ext s) of
           (Inl err, e) \<Rightarrow> (Inl err, called (QueryRawUnsafe t q) e s)
         | (Inr result, e) \<Rightarrow>
             (case AddJobResultsSchema (js_String env) (new_Date env) result of
                Inl is \<Rightarrow> (Inl (RemoveJobZodParsingError is), called (QueryRawUnsafe t q) e s)
              | Inr rows \<Rightarrow> (Inr (first_row rows), called (QueryRawUnsafe t q) e s)))"

definition removeJob ::
  "'e env \<Rightarrow> string \<Rightarrow> PrismaClientOrTransaction \<Rightarrow> 'e state \<Rightarrow>
   (error + GraphileJob option) \<times> 'e state" where
  "removeJob env jk t s =
     (case removeJob_try env jk t s of
        (Inl e, s1) \<Rightarrow> (Inl (FailedToRemoveJob e), s1)
      | (Inr j, s1) \<Rightarrow> (Inr j, s1))"

text \<open>\<^verbatim>\<open>option?.tx ?? this.#prisma\<close>.\<close>

definition dequeue_context :: "'e ZodWorker \<Rightarrow> ZodWorkerDequeueOptions option \<Rightarrow> PrismaClientOrTransaction" where
  "dequeue_context w opt =
     (case opt of
        None \<Rightarrow> prisma w
      | Some given \<Rightarrow> (case dequeue_tx given of Val t \<Rightarrow> t | _ \<Rightarrow> prisma w))"

definition dequeue ::
  "'e env \<Rightarrow> 'e ZodWorker \<Rightarrow> string \<Rightarrow> ZodWorkerDequeueOptions option \<Rightarrow> 'e state \<Rightarrow>
   (error + GraphileJob option) \<times> 'e state" where
  "dequeue env w jk opt s =
     (case runner s of
        None \<Rightarrow> (Inl WorkerNotInitialized, s)
      | Some r \<Rightarrow>
          (case removeJob env jk (dequeue_context w opt) s of
             (Inl err, s1) \<Rightarrow> (Inl err, s1)
           | (Inr j, s1) \<Rightarrow> (Inr j, logger (DebugDequeued j) s1)))"

section \<open>Dispatch\<close>

definition handleMessage ::
  "'e env \<Rightarrow> 'e ZodWorker \<Rightarrow> string \<Rightarrow> jsval \<Rightarrow> JobHelpers \<Rightarrow> 'e state \<Rightarrow> (error + unit) \<times> 'e state" where
  "handleMessage env w typeName rawPayload helpers s =
     (case map_of (schema w) typeName of
        None \<Rightarrow> (Inl (UnknownMessageType typeName), s)
      | Some messageSchema \<Rightarrow>
          (case messageSchema rawPayload of
             Inl is \<Rightarrow> (Inl (ZodError is), s)
           | Inr pl \<Rightarrow>
               (let s1 = logger (DebugReceivedWorkerTask typeName pl (job helpers)) s
                in case map_of (tasks w) typeName of
                     None \<Rightarrow> (Inl (NoTaskForMessageType typeName), s1)
                   | Some task \<Rightarrow>
                       (case handler task pl (job helpers) (ext s1) of
                          (res, e) \<Rightarrow>
                            (res, called (TaskHandler typeName pl (job helpers)) e s1)))))"

definition handleRecurringTask ::
  "'e env \<Rightarrow> 'e ZodWorker \<Rightarrow> string \<Rightarrow> jsval \<Rightarrow> JobHelpers \<Rightarrow> 'e state \<Rightarrow> (error + unit) \<times> 'e state" where
  "handleRecurringTask env w typeName rawPayload helpers s =
     (let s1 = logger (DebugReceivedRecurringTask typeName rawPayload (job helpers)) s
      in case (case recurringTasks w of None \<Rightarrow> None | Some rts \<Rightarrow> map_of rts typeName) of
           None \<Rightarrow> (Inl (NoRecurringTaskForMessageType typeName), s1)
         | Some recurringTask \<Rightarrow>
             (case RawCronPayloadSchema (new_Date env) rawPayload of
                Inl is \<Rightarrow> (Inl (FailedToParseRecurringTaskPayload is), s1)
              | Inr pl \<Rightarrow>
                  (case recurring_handler recurringTask (cron pl) (job helpers) (ext s1) of
                     (Inl err, e) \<Rightarrow>
                       (Inl err,
                        logger (ErrorFailedToHandleRecurringTask err pl)
                          (called (RecurringTaskHandler typeName (cron pl) (job helpers)) e s1))
                   | (Inr u, e) \<Rightarrow>
                       (Inr (),
                        called (RecurringTaskHandler typeName (cron pl) (job helpers)) e s1))))"

text \<open>What the engine runs when it calls an entry of the task list.\<close>

fun run_task ::
  "'e env \<Rightarrow> 'e ZodWorker \<Rightarrow> Task \<Rightarrow> jsval \<Rightarrow> JobHelpers \<Rightarrow> 'e state \<Rightarrow> (error + unit) \<times> 'e state" where
  "run_task env w (HandleMessage k) pl helpers s = handleMessage env w k pl helpers s"
| "run_task env w (HandleRecurringTask k) pl helpers s = handleRecurringTask env w k pl helpers s"

section \<open>A worker to compute with\<close>

text \<open>
  A worker with one task, registered under two names, and one recurring task whose name
  is also that of a task; collaborators that answer in a fixed way; a worker state
  before and after a successful start.
\<close>

definition example_queue_name :: "jsval \<Rightarrow> string" where
  "example_queue_name pl =
     (case pl of
        Obj ps \<Rightarrow> (case map_of ps ''user'' of Some (Str u) \<Rightarrow> u | _ \<Rightarrow> [])
      | _ \<Rightarrow> [])"

definition example_task :: "nat ZodTask" where
  "example_task =
     \<lparr>task_queueName = Val (Dynamic example_queue_name), task_priority = Val 0,
      task_maxAttempts = Val 3, task_jobKeyMode = Val Replace, task_flags = Val [''bulk''],
      handler = (\<lambda>pl j e. (Inr (), Suc e))\<rparr>"

definition example_recurring :: "nat ZodRecurringTask" where
  "example_recurring =
     \<lparr>pattern = ''0 * * * *'', options = Absent,
      recurring_handler = (\<lambda>pl j e. (Inr (), Suc e))\<rparr>"

definition example_worker :: "nat ZodWorker" where
  "example_worker =
     \<lparr>schema = [(''email'', z_unknown)], prisma = 0, runnerOptions = Obj [],
      tasks = [(''email'', example_task), (''cleanup'', example_task)],
      recurringTasks = Some [(''cleanup'', example_recurring)]\<rparr>"

definition example_env :: "nat env" where
  "example_env =
     \<lparr>graphileRun = (\<lambda>args e. (Inr (Some 7), e)),
      parseCronItems = (\<lambda>items. Inr (Arr [])),
      runner_stop = (\<lambda>r e. (Inr (), e)),
      queryRawUnsafe =
        (\<lambda>t q e. if params q = [Str ''lost''] then (Inl (Thrown ''connection lost''), e)
                 else if params q = [Str ''garbled''] then (Inr (Str ''no rows''), e)
                 else (Inr (Arr []), e)),
      JSON_stringify = (\<lambda>v. v),
      js_String = (\<lambda>v. case v of Str x \<Rightarrow> x | _ \<Rightarrow> []),
      new_Date =
        (\<lambda>v. case v of
               Date t \<Rightarrow> Some t
             | Num n \<Rightarrow> Some n
             | Null \<Rightarrow> Some 0
             | Bool c \<Rightarrow> Some (if c then 1 else 0)
             | Str x \<Rightarrow> if x = ''2024-01-01T00:00:00Z'' then Some 1704067200000 else None
             | _ \<Rightarrow> None)\<rparr>"

definition example_job :: GraphileJob where
  "example_job = mk_job ''1'' None ''cleanup'' (Obj []) 0 0 1 25 None 0 0 None 0 None None None"

definition example_helpers :: JobHelpers where
  "example_helpers = \<lparr>job = example_job\<rparr>"

definition stopped :: "nat state" where
  "stopped = \<lparr>runner = None, logs = [], calls = [], ext = 0\<rparr>"

definition started :: "nat state" where
  "started = \<lparr>runner = Some 7, logs = [], calls = [], ext = 0\<rparr>"

definition example_options :: ZodWorkerEnqueueOptions where
  "example_options =
     \<lparr>queueName = Val ''other'', runAt = Absent, maxAttempts = Absent, jobKey = Val [],
      priority = Absent, jobKeyMode = Absent, flags = Absent, tx = Val 5\<rparr>"

section \<open>What the operations do to the state\<close>

lemma calls_addJob:
  "calls (snd (addJob env identifier pl spec t s)) =
     calls s @ [QueryRawUnsafe t (add_job_query env identifier pl spec)]"
  by (simp add: addJob_def called_def Let_def split: prod.splits sum.splits)

lemma calls_removeJob:
  "calls (snd (removeJob env jk t s)) = calls s @ [QueryRawUnsafe t (remove_job_query jk)]"
  by (simp add: removeJob_def removeJob_try_def called_def Let_def split: prod.splits sum.splits)

lemma calls_enqueue:
  assumes "runner s = Some r" and "map_of (tasks w) identifier = Some task"
  shows "calls (snd (enqueue env w identifier pl opts s)) =
           calls s @ [QueryRawUnsafe (enqueue_tx w opts)
                        (add_job_query env identifier pl (enqueue_spec task pl (omit_tx opts)))]"
proof -
  let ?spec = "enqueue_spec task pl (omit_tx opts)"
  obtain res s1 where a: "addJob env identifier pl ?spec (enqueue_tx w opts) s = (res, s1)"
    by (cases "addJob env identifier pl ?spec (enqueue_tx w opts) s")
  have "calls s1 = calls s @ [QueryRawUnsafe (enqueue_tx w opts) (add_job_query env identifier pl ?spec)]"
    by (metis calls_addJob a snd_conv)
  then show ?thesis
    using assms a by (cases res) (simp_all add: enqueue_def logger_def)
qed

lemma calls_dequeue:
  assumes "runner s = Some r"
  shows "calls (snd (dequeue env w jk opt s)) =
           calls s @ [QueryRawUnsafe (dequeue_context w opt) (remove_job_query jk)]"
proof -
  obtain res s1 where a: "removeJob env jk (dequeue_context w opt) s = (res, s1)"
    by (cases "removeJob env jk (dequeue_context w opt) s")
  have "calls s1 = calls s @ [QueryRawUnsafe (dequeue_context w opt) (remove_job_query jk)]"
    by (metis calls_removeJob a snd_conv)
  then show ?thesis
    using assms a by (cases res) (simp_all add: dequeue_def logger_def)
qed

lemma bound_add_job:
  "bound_value (add_job_query env identifier pl spec) ''identifier'' = Some (Str identifier)"
  "bound_value (add_job_query env identifier pl spec) ''payload'' = Some (JSON_stringify env pl)"
  "bound_value (add_job_query env identifier pl spec) ''queue_name'' = Some (js_or (read_field Str (queueName spec)) Null)"
  "bound_value (add_job_query env identifier pl spec) ''run_at'' = Some (js_or (read_field Date (runAt spec)) Null)"
  "bound_value (add_job_query env identifier pl spec) ''max_attempts'' = Some (js_or (read_field Num (maxAttempts spec)) Null)"
  "bound_value (add_job_query env identifier pl spec) ''job_key'' = Some (js_or (read_field Str (jobKey spec)) Null)"
  "bound_value (add_job_query env identifier pl spec) ''priority'' = Some (js_or (read_field Num (priority spec)) Null)"
  "bound_value (add_job_query env identifier pl spec) ''flags'' = Some (js_or (read_field (\<lambda>m. Str (jobKeyMode_str m)) (jobKeyMode spec)) Null)"
  "bound_value (add_job_query env identifier pl spec) ''job_key_mode'' = Some (js_or (read_field (\<lambda>fs. Arr (map Str fs)) (flags spec)) Null)"
  by (simp_all add: bound_value_def add_job_query_def add_job_statement_def)

lemma RawCronPayloadSchema_Inr_iff:
  "(RawCronPayloadSchema nd v = Inr p) =
     (\<exists>ps cs t b. v = Obj ps \<and> get_property ps ''_cron'' = Obj cs \<and>
        nd (get_property cs ''ts'') = Some t \<and> get_property cs ''backfilled'' = Bool b \<and>
        p = \<lparr>cron = \<lparr>ts = t, backfilled = b\<rparr>\<rparr>)"
proof (cases v)
  case (Obj ps)
  show ?thesis
  proof (cases "get_property ps ''_cron''")
    case (Obj cs)
    show ?thesis
      using \<open>v = Obj ps\<close> Obj
      by (cases "nd (get_property cs ''ts'')"; cases "get_property cs ''backfilled''")
         (auto simp: RawCronPayloadSchema_def z_key_def under_def z_coerce_date_def
            z_boolean_def invalid_type_def)
  qed (simp_all add: \<open>v = Obj ps\<close> RawCronPayloadSchema_def z_key_def under_def invalid_type_def)
qed (simp_all add: RawCronPayloadSchema_def invalid_type_def)

lemma calls_handleRecurringTask_parsed:
  assumes "recurringTasks w = Some rts"
    and "map_of rts typeName = Some recurringTask"
    and "RawCronPayloadSchema (new_Date env) rawPayload = Inr parsed"
  shows "calls (snd (handleRecurringTask env w typeName rawPayload helpers s)) =
           calls s @ [RecurringTaskHandler typeName (cron parsed) (job helpers)]"
proof -
  obtain res e where
    h: "recurring_handler recurringTask (cron parsed) (job helpers) (ext s) = (res, e)"
    by (cases "recurring_handler recurringTask (cron parsed) (job helpers) (ext s)")
  show ?thesis
    using assms h
    by (cases res) (simp_all add: handleRecurringTask_def logger_def called_def)
qed

lemma map_of_fold_update:
  "map_of (fold (\<lambda>(k, v). AList.update k (f k)) xs acc) x =
     (if x \<in> fst ` set xs then Some (f x) else map_of acc x)"
  by (induction xs arbitrary: acc) (auto simp: update_conv')

lemma runner_stop_state: "runner (snd (stop env s)) = runner s"
  by (simp add: stop_def called_def split: option.splits prod.splits)

lemma initialize_started: "runner s = Some r \<Longrightarrow> initialize env w s = (Inr True, s)"
  by (simp add: initialize_def)

lemma initialize_success:
  assumes "runner s = None" and "fst (initialize env w s) = Inr ok"
  shows "ok = True \<and> (\<exists>h. runner (snd (initialize env w s)) = Some h) \<and>
         (\<exists>items args. calls (snd (initialize env w s)) = calls s @ [ParseCronItems items, GraphileRun args])"
  using assms
  by (auto simp: initialize_def Let_def called_def logger_def
        split: sum.splits prod.splits option.splits)

section \<open>The add-job operation\<close>

text \<open>
  C1. The claim: \<^verbatim>\<open>enqueue\<close> binds every resolved field to the engine parameter of the
  same meaning, the flags to \<^verbatim>\<open>flags\<close> and the job-key mode to \<^verbatim>\<open>job_key_mode\<close>.
  The statement names \<^verbatim>\<open>flags => $8\<close> and \<^verbatim>\<open>job_key_mode => $9\<close>, and the values are
  passed in the order job-key mode, flags. For a task with job-key mode \<^verbatim>\<open>replace\<close> and flags
  \<^verbatim>\<open>["bulk"]\<close> the operation issued has \<^verbatim>\<open>flags\<close> bound to the string \<^verbatim>\<open>replace\<close> and
  \<^verbatim>\<open>job_key_mode\<close> bound to the array.
\<close>

theorem enqueue_binds_job_key_mode_to_flags:
  "calls (snd (enqueue example_env example_worker ''email'' (Obj [(''user'', Str ''u1'')]) None started)) =
     [QueryRawUnsafe 0
        (add_job_query example_env ''email'' (Obj [(''user'', Str ''u1'')])
           (enqueue_spec example_task (Obj [(''user'', Str ''u1'')]) (omit_tx None)))] \<and>
   jobKeyMode (enqueue_spec example_task (Obj [(''user'', Str ''u1'')]) (omit_tx None)) = Val Replace \<and>
   flags (enqueue_spec example_task (Obj [(''user'', Str ''u1'')]) (omit_tx None)) = Val [''bulk''] \<and>
   bound_value
     (add_job_query example_env ''email'' (Obj [(''user'', Str ''u1'')])
        (enqueue_spec example_task (Obj [(''user'', Str ''u1'')]) (omit_tx None))) ''flags'' =
     Some (Str ''replace'') \<and>
   bound_value
     (add_job_query example_env ''email'' (Obj [(''user'', Str ''u1'')])
        (enqueue_spec example_task (Obj [(''user'', Str ''u1'')]) (omit_tx None))) ''job_key_mode'' =
     Some (Arr [Str ''bulk''])"
proof -
  have r: "runner started = Some 7" by (simp add: started_def)
  have t: "map_of (tasks example_worker) ''email'' = Some example_task"
    by (simp add: example_worker_def)
  have c: "calls started = []" by (simp add: started_def)
  have x: "enqueue_tx example_worker None = 0"
    by (simp add: enqueue_tx_def example_worker_def)
  show ?thesis
    using calls_enqueue [OF r t, where env = example_env and opts = None] c x
    by (simp add: bound_add_job enqueue_spec_def omit_tx_def example_task_def js_or_def)
qed

text \<open>
  C6, as the code has it. On a started worker, for a task whose queue name is a
  function \<open>f\<close>, \<^verbatim>\<open>enqueue\<close> issues one add-job operation, on the caller's context or the
  default one, whose \<^verbatim>\<open>queue_name\<close> is \<open>f payload\<close> when that string is not empty and
  null when it is empty, whatever queue name the caller's options give.
\<close>

theorem enqueue_dynamic_queue_name:
  assumes "runner s = Some r"
    and "map_of (tasks w) identifier = Some task"
    and "task_queueName task = Val (Dynamic f)"
  shows "calls (snd (enqueue env w identifier pl opts s)) =
           calls s @ [QueryRawUnsafe (enqueue_tx w opts)
                        (add_job_query env identifier pl (enqueue_spec task pl (omit_tx opts)))] \<and>
         bound_value (add_job_query env identifier pl (enqueue_spec task pl (omit_tx opts)))
           ''queue_name'' = Some (if f pl = [] then Null else Str (f pl))"
proof -
  have "queueName (enqueue_spec task pl (omit_tx opts)) = Val (f pl)"
    using assms(3) by (simp add: enqueue_spec_def)
  then show ?thesis
    using calls_enqueue [OF assms(1,2)] by (simp add: bound_add_job js_or_def)
qed

text \<open>
  C6, the theorem at a payload where the function answers \<^verbatim>\<open>u1\<close> and the caller asks for
  the queue \<^verbatim>\<open>other\<close> on the context 5.
\<close>

theorem enqueue_dynamic_queue_name_witness:
  "runner started = Some 7 \<and>
   map_of (tasks example_worker) ''email'' = Some example_task \<and>
   task_queueName example_task = Val (Dynamic example_queue_name) \<and>
   queueName example_options = Val ''other'' \<and>
   calls (snd (enqueue example_env example_worker ''email'' (Obj [(''user'', Str ''u1'')])
                 (Some example_options) started)) =
     [QueryRawUnsafe 5
        (add_job_query example_env ''email'' (Obj [(''user'', Str ''u1'')])
           (enqueue_spec example_task (Obj [(''user'', Str ''u1'')])
              (omit_tx (Some example_options))))] \<and>
   bound_value
     (add_job_query example_env ''email'' (Obj [(''user'', Str ''u1'')])
        (enqueue_spec example_task (Obj [(''user'', Str ''u1'')])
           (omit_tx (Some example_options)))) ''queue_name'' = Some (Str ''u1'')"
proof -
  have r: "runner started = Some 7" by (simp add: started_def)
  have t: "map_of (tasks example_worker) ''email'' = Some example_task"
    by (simp add: example_worker_def)
  have q: "task_queueName example_task = Val (Dynamic example_queue_name)"
    by (simp add: example_task_def)
  have n: "queueName example_options = Val ''other''" by (simp add: example_options_def)
  have c: "calls started = []" by (simp add: started_def)
  have x: "enqueue_tx example_worker (Some example_options) = 5"
    by (simp add: enqueue_tx_def example_options_def)
  have f: "example_queue_name (Obj [(''user'', Str ''u1'')]) = ''u1''"
    by (simp add: example_queue_name_def)
  show ?thesis
    using enqueue_dynamic_queue_name [OF r t q, where env = example_env
            and pl = "Obj [(''user'', Str ''u1'')]" and opts = "Some example_options"]
      r t q n c x f
    by simp
qed

text \<open>
  C6, against the claim as stated (the operation carries the queue name \<open>f payload\<close> for
  every payload): at a payload where the function answers the empty string the operation
  carries null.
\<close>

theorem enqueue_empty_dynamic_queue_name_sent_as_null:
  "example_queue_name (Obj []) = [] \<and>
   calls (snd (enqueue example_env example_worker ''email'' (Obj []) None started)) =
     [QueryRawUnsafe 0
        (add_job_query example_env ''email'' (Obj [])
           (enqueue_spec example_task (Obj []) (omit_tx None)))] \<and>
   bound_value
     (add_job_query example_env ''email'' (Obj [])
        (enqueue_spec example_task (Obj []) (omit_tx None))) ''queue_name'' = Some Null \<and>
   bound_value
     (add_job_query example_env ''email'' (Obj [])
        (enqueue_spec example_task (Obj []) (omit_tx None))) ''queue_name'' \<noteq>
     Some (Str (example_queue_name (Obj [])))"
proof -
  have r: "runner started = Some 7" by (simp add: started_def)
  have t: "map_of (tasks example_worker) ''email'' = Some example_task"
    by (simp add: example_worker_def)
  have c: "calls started = []" by (simp add: started_def)
  have x: "enqueue_tx example_worker None = 0"
    by (simp add: enqueue_tx_def example_worker_def)
  show ?thesis
    using calls_enqueue [OF r t, where env = example_env and opts = None] c x
    by (simp add: bound_add_job enqueue_spec_def omit_tx_def example_task_def js_or_def
          example_queue_name_def)
qed

text \<open>
  C10. On a started worker every field of the resolved spec that is falsy goes to the
  add-job operation as null and every other field as itself: priority 0, max attempts 0,
  an empty queue name and an empty job key are sent as null.
\<close>

theorem enqueue_falsy_fields_null:
  assumes "runner s = Some r"
    and "map_of (tasks w) identifier = Some task"
    and "spec = enqueue_spec task pl (omit_tx opts)"
    and "q = add_job_query env identifier pl spec"
  shows "calls (snd (enqueue env w identifier pl opts s)) =
           calls s @ [QueryRawUnsafe (enqueue_tx w opts) q] \<and>
         (priority spec = Val 0 \<longrightarrow> bound_value q ''priority'' = Some Null) \<and>
         (maxAttempts spec = Val 0 \<longrightarrow> bound_value q ''max_attempts'' = Some Null) \<and>
         (queueName spec = Val [] \<longrightarrow> bound_value q ''queue_name'' = Some Null) \<and>
         (jobKey spec = Val [] \<longrightarrow> bound_value q ''job_key'' = Some Null) \<and>
         drop 2 (params q) =
           map (\<lambda>v. if truthy v then v else Null)
             [read_field Str (queueName spec), read_field Date (runAt spec),
              read_field Num (maxAttempts spec), read_field Str (jobKey spec),
              read_field Num (priority spec),
              read_field (\<lambda>m. Str (jobKeyMode_str m)) (jobKeyMode spec),
              read_field (\<lambda>fs. Arr (map Str fs)) (flags spec)]"
proof -
  have c: "calls (snd (enqueue env w identifier pl opts s)) =
             calls s @ [QueryRawUnsafe (enqueue_tx w opts) q]"
    using calls_enqueue [OF assms(1,2)] assms(3,4) by simp
  have p: "drop 2 (params q) =
           map (\<lambda>v. if truthy v then v else Null)
             [read_field Str (queueName spec), read_field Date (runAt spec),
              read_field Num (maxAttempts spec), read_field Str (jobKey spec),
              read_field Num (priority spec),
              read_field (\<lambda>m. Str (jobKeyMode_str m)) (jobKeyMode spec),
              read_field (\<lambda>fs. Arr (map Str fs)) (flags spec)]"
    unfolding assms(4) by (simp add: add_job_query_def js_or_def)
  show ?thesis
    using c p unfolding assms(4) by (simp add: bound_add_job js_or_def)
qed

text \<open>
  C10, the theorem at a task with priority 0 whose queue-name function answers the empty
  string.
\<close>

theorem enqueue_falsy_fields_null_witness:
  "runner started = Some 7 \<and>
   map_of (tasks example_worker) ''email'' = Some example_task \<and>
   priority (enqueue_spec example_task (Obj []) (omit_tx None)) = Val 0 \<and>
   queueName (enqueue_spec example_task (Obj []) (omit_tx None)) = Val [] \<and>
   calls (snd (enqueue example_env example_worker ''email'' (Obj []) None started)) =
     [QueryRawUnsafe 0
        (add_job_query example_env ''email'' (Obj [])
           (enqueue_spec example_task (Obj []) (omit_tx None)))] \<and>
   bound_value
     (add_job_query example_env ''email'' (Obj [])
        (enqueue_spec example_task (Obj []) (omit_tx None))) ''priority'' = Some Null \<and>
   bound_value
     (add_job_query example_env ''email'' (Obj [])
        (enqueue_spec example_task (Obj []) (omit_tx None))) ''queue_name'' = Some Null"
proof -
  have r: "runner started = Some 7" by (simp add: started_def)
  have t: "map_of (tasks example_worker) ''email'' = Some example_task"
    by (simp add: example_worker_def)
  have p: "priority (enqueue_spec example_task (Obj []) (omit_tx None)) = Val 0"
    by (simp add: enqueue_spec_def example_task_def omit_tx_def)
  have n: "queueName (enqueue_spec example_task (Obj []) (omit_tx None)) = Val []"
    by (simp add: enqueue_spec_def example_task_def example_queue_name_def)
  have c: "calls started = []" by (simp add: started_def)
  have x: "enqueue_tx example_worker None = 0"
    by (simp add: enqueue_tx_def example_worker_def)
  show ?thesis
    using enqueue_falsy_fields_null [OF r t refl refl, where env = example_env and pl = "Obj []" and opts = None]
      r t p n c x
    by simp
qed

section \<open>Before the start\<close>

text \<open>
  C5. While the worker has no runner, \<^verbatim>\<open>enqueue\<close> and \<^verbatim>\<open>dequeue\<close> fail with
  \<^verbatim>\<open>Worker not initialized\<close> for every identifier, payload, job key and options, and
  leave the state as it was: no operation is issued.
\<close>

theorem enqueue_dequeue_before_start:
  assumes "runner s = None"
  shows "enqueue env w identifier pl opts s = (Inl WorkerNotInitialized, s) \<and>
         dequeue env w jk opt s = (Inl WorkerNotInitialized, s)"
  using assms by (simp add: enqueue_def dequeue_def)

text \<open>
  C5, the theorem at the worker that was never started.
\<close>

theorem enqueue_dequeue_before_start_witness:
  "runner stopped = None \<and>
   enqueue example_env example_worker ''email'' (Obj []) None stopped = (Inl WorkerNotInitialized, stopped) \<and>
   dequeue example_env example_worker ''k'' None stopped = (Inl WorkerNotInitialized, stopped)"
proof -
  have h: "runner stopped = None" by (simp add: stopped_def)
  show ?thesis using h enqueue_dequeue_before_start [OF h] by simp
qed

section \<open>Start and stop\<close>

text \<open>
  C4. With a runner, \<^verbatim>\<open>initialize\<close> returns true and changes nothing. Without one, when
  the first call succeeds, the second returns true and changes nothing, and the two calls
  together have started the engine once.
\<close>

theorem initialize_idempotent:
  assumes "once = snd (initialize env w s)"
    and "twice = snd (initialize env w once)"
  shows "(\<forall>r. runner s = Some r \<longrightarrow> initialize env w s = (Inr True, s)) \<and>
         (runner s = None \<and> fst (initialize env w s) = Inr ok \<longrightarrow>
            ok = True \<and>
            initialize env w once = (Inr True, once) \<and>
            length (filter is_GraphileRun (calls twice)) =
              Suc (length (filter is_GraphileRun (calls s))))"
proof -
  have "ok = True \<and> initialize env w once = (Inr True, once) \<and>
        length (filter is_GraphileRun (calls twice)) =
          Suc (length (filter is_GraphileRun (calls s)))"
    if n: "runner s = None" and f: "fst (initialize env w s) = Inr ok"
  proof -
    from initialize_success [OF n f] obtain h items args
      where ok: "ok = True" and h: "runner once = Some h"
        and c: "calls once = calls s @ [ParseCronItems items, GraphileRun args]"
      using assms(1) by auto
    have i: "initialize env w once = (Inr True, once)"
      using h by (rule initialize_started)
    then have "twice = once" using assms(2) by simp
    then show ?thesis using ok i c by simp
  qed
  then show ?thesis
    using initialize_started by blast
qed

text \<open>
  C4, the theorem at the worker that was never started.
\<close>

theorem initialize_idempotent_witness:
  "runner stopped = None \<and>
   fst (initialize example_env example_worker stopped) = Inr True \<and>
   initialize example_env example_worker (snd (initialize example_env example_worker stopped)) =
     (Inr True, snd (initialize example_env example_worker stopped)) \<and>
   length (filter is_GraphileRun
     (calls (snd (initialize example_env example_worker
        (snd (initialize example_env example_worker stopped)))))) =
     Suc (length (filter is_GraphileRun (calls stopped)))"
proof -
  have n: "runner stopped = None" by (simp add: stopped_def)
  have f: "fst (initialize example_env example_worker stopped) = Inr True"
    by (simp add: initialize_def stopped_def example_env_def Let_def logger_def called_def)
  show ?thesis
    using initialize_idempotent [OF refl refl, where env = example_env and w = example_worker and s = stopped
                and ok = True] n f
    by blast
qed

text \<open>
  C3, as the code has it. Without a runner \<^verbatim>\<open>stop\<close> does nothing. With a runner it asks
  the engine to stop it and keeps the handle: the field \<^verbatim>\<open>#runner\<close> is the same after the
  call, so a following \<^verbatim>\<open>initialize\<close> returns true without starting the engine, and
  \<^verbatim>\<open>dequeue\<close> and \<^verbatim>\<open>enqueue\<close> (of a declared task) still issue their operation.
\<close>

theorem stop_keeps_handle:
  assumes "after = snd (stop env s)"
  shows "(runner s = None \<longrightarrow> stop env s = (Inr (), s)) \<and>
         (\<forall>r. runner s = Some r \<longrightarrow>
            stop env s =
              (fst (runner_stop env r (ext s)),
               called (RunnerStop r) (snd (runner_stop env r (ext s))) s) \<and>
            initialize env w after = (Inr True, after) \<and>
            calls (snd (dequeue env w jk opt after)) =
              calls after @ [QueryRawUnsafe (dequeue_context w opt) (remove_job_query jk)] \<and>
            (\<forall>task. map_of (tasks w) identifier = Some task \<longrightarrow>
               calls (snd (enqueue env w identifier pl opts after)) =
                 calls after @
                   [QueryRawUnsafe (enqueue_tx w opts)
                      (add_job_query env identifier pl (enqueue_spec task pl (omit_tx opts)))])) \<and>
         runner after = runner s"
proof -
  have k: "runner after = runner s"
    using assms by (simp add: runner_stop_state)
  have n: "runner s = None \<longrightarrow> stop env s = (Inr (), s)"
    by (simp add: stop_def)
  have "stop env s =
          (fst (runner_stop env r (ext s)),
           called (RunnerStop r) (snd (runner_stop env r (ext s))) s)"
    if "runner s = Some r" for r
    using that by (simp add: stop_def split: prod.splits)
  moreover have "initialize env w after = (Inr True, after)" if "runner s = Some r" for r
    using that k by (simp add: initialize_def)
  moreover have "calls (snd (dequeue env w jk opt after)) =
      calls after @ [QueryRawUnsafe (dequeue_context w opt) (remove_job_query jk)]"
    if "runner s = Some r" for r
    using that k calls_dequeue [where s = after and r = r] by simp
  moreover have "calls (snd (enqueue env w identifier pl opts after)) =
      calls after @
        [QueryRawUnsafe (enqueue_tx w opts)
           (add_job_query env identifier pl (enqueue_spec task pl (omit_tx opts)))]"
    if "runner s = Some r" and "map_of (tasks w) identifier = Some task" for r task
    using that(1) k calls_enqueue [OF _ that(2), where s = after and r = r] by simp
  ultimately show ?thesis
    using k n by blast
qed

text \<open>
  C3, the theorem at the worker that was never started and at the started one.
\<close>

theorem stop_keeps_handle_witness:
  "runner stopped = None \<and>
   stop example_env stopped = (Inr (), stopped) \<and>
   runner started = Some 7 \<and>
   stop example_env started =
     (fst (runner_stop example_env 7 (ext started)),
      called (RunnerStop 7) (snd (runner_stop example_env 7 (ext started))) started) \<and>
   initialize example_env example_worker (snd (stop example_env started)) =
     (Inr True, snd (stop example_env started)) \<and>
   calls (snd (dequeue example_env example_worker ''k'' None (snd (stop example_env started)))) =
     calls (snd (stop example_env started)) @
       [QueryRawUnsafe (dequeue_context example_worker None) (remove_job_query ''k'')] \<and>
   runner (snd (stop example_env started)) = runner started"
proof -
  have a: "runner stopped = None" by (simp add: stopped_def)
  have b: "runner started = Some 7" by (simp add: started_def)
  note x = stop_keeps_handle [OF refl, where env = example_env and s = stopped]
  note y = stop_keeps_handle [OF refl, where env = example_env and s = started and w = example_worker
                and jk = "''k''" and opt = None]
  from a x have "stop example_env stopped = (Inr (), stopped)" by blast
  moreover from b y have "stop example_env started =
     (fst (runner_stop example_env 7 (ext started)),
      called (RunnerStop 7) (snd (runner_stop example_env 7 (ext started))) started)"
    by blast
  moreover from b y have "initialize example_env example_worker (snd (stop example_env started)) =
     (Inr True, snd (stop example_env started))"
    by blast
  moreover from b y have
    "calls (snd (dequeue example_env example_worker ''k'' None (snd (stop example_env started)))) =
     calls (snd (stop example_env started)) @
       [QueryRawUnsafe (dequeue_context example_worker None) (remove_job_query ''k'')]"
    by blast
  moreover from y have "runner (snd (stop example_env started)) = runner started" by blast
  ultimately show ?thesis using a b by blast
qed

text \<open>
  C3, against the claim as stated (after \<^verbatim>\<open>stop\<close> the handle is cleared, a following start
  runs the engine again and \<^verbatim>\<open>dequeue\<close> fails as uninitialized): on the started worker the
  runner is still there after \<^verbatim>\<open>stop\<close>, \<^verbatim>\<open>initialize\<close> changes nothing and \<^verbatim>\<open>dequeue\<close>
  succeeds.
\<close>

theorem stop_does_not_clear_handle:
  "runner started = Some 7 \<and>
   stop example_env started = (Inr (), started\<lparr>calls := [RunnerStop 7]\<rparr>) \<and>
   runner (snd (stop example_env started)) = Some 7 \<and>
   initialize example_env example_worker (snd (stop example_env started)) =
     (Inr True, snd (stop example_env started)) \<and>
   fst (dequeue example_env example_worker ''k'' None (snd (stop example_env started))) = Inr None"
  by (simp add: stop_def started_def example_env_def called_def initialize_def dequeue_def
        removeJob_def removeJob_try_def AddJobResultsSchema_def z_array_def first_row_def
        remove_job_query_def Let_def)

section \<open>Removing a job\<close>

text \<open>
  C8. On a started worker \<^verbatim>\<open>dequeue\<close> fails exactly when the query throws or its result
  does not parse as a list of job records, and the error is then the remove-job error
  around the cause: the exception of the query, or the parse error with its issues.
  Otherwise it returns the first row.
\<close>

theorem dequeue_wraps_failures:
  assumes "runner s = Some r"
    and "t = dequeue_context w opt"
  shows "case queryRawUnsafe env t (remove_job_query jk) (ext s) of
           (Inl cause, e) \<Rightarrow>
             fst (dequeue env w jk opt s) = Inl (FailedToRemoveJob cause)
         | (Inr result, e) \<Rightarrow>
             (case AddJobResultsSchema (js_String env) (new_Date env) result of
                Inl issues \<Rightarrow>
                  fst (dequeue env w jk opt s) =
                    Inl (FailedToRemoveJob (RemoveJobZodParsingError issues))
              | Inr rows \<Rightarrow> fst (dequeue env w jk opt s) = Inr (first_row rows))"
proof -
  obtain res e where q: "queryRawUnsafe env t (remove_job_query jk) (ext s) = (res, e)"
    by (cases "queryRawUnsafe env t (remove_job_query jk) (ext s)")
  show ?thesis
  proof (cases res)
    case (Inl cause)
    then show ?thesis
      using assms q by (simp add: dequeue_def removeJob_def removeJob_try_def Let_def)
  next
    case (Inr result)
    then show ?thesis
      using assms q
      by (cases "AddJobResultsSchema (js_String env) (new_Date env) result")
         (simp_all add: dequeue_def removeJob_def removeJob_try_def Let_def)
  qed
qed

text \<open>
  C8, the theorem at a query that throws, at a result that is not a list, and at an
  empty list of rows.
\<close>

theorem dequeue_wraps_failures_witness:
  "runner started = Some 7 \<and>
   fst (dequeue example_env example_worker ''lost'' None started) =
     Inl (FailedToRemoveJob (Thrown ''connection lost'')) \<and>
   fst (dequeue example_env example_worker ''garbled'' None started) =
     Inl (FailedToRemoveJob (RemoveJobZodParsingError [ZodIssue ''invalid_type'' []])) \<and>
   fst (dequeue example_env example_worker ''k'' None started) = Inr None"
proof -
  have r: "runner started = Some 7" by (simp add: started_def)
  show ?thesis
    using r dequeue_wraps_failures [OF r refl, where env = example_env and w = example_worker and opt = None and jk = "''lost''"]
      dequeue_wraps_failures [OF r refl, where env = example_env and w = example_worker and opt = None and jk = "''garbled''"]
      dequeue_wraps_failures [OF r refl, where env = example_env and w = example_worker and opt = None and jk = "''k''"]
    by (simp add: example_env_def remove_job_query_def AddJobResultsSchema_def z_array_def
          invalid_type_def first_row_def)
qed

section \<open>Cron firings\<close>

text \<open>
  C2, as the code has it. For a registered recurring task and a raw payload of the shape
  \<^verbatim>\<open>{_cron: {ts, backfilled}}\<close>, with \<^verbatim>\<open>ts\<close> a value that \<^verbatim>\<open>new Date\<close> turns into a valid
  date \<open>t\<close> and \<^verbatim>\<open>backfilled\<close> a boolean \<open>b\<close>, the task's handler is called once, with
  the unwrapped payload \<^verbatim>\<open>{ts: t, backfilled: b}\<close> and the job of the helpers; the outcome
  of the firing is the outcome of the handler.
\<close>

theorem recurring_firing_invokes_handler:
  assumes "recurringTasks w = Some rts"
    and "map_of rts typeName = Some recurringTask"
    and "rawPayload = Obj ps"
    and "get_property ps ''_cron'' = Obj cs"
    and "new_Date env (get_property cs ''ts'') = Some t"
    and "get_property cs ''backfilled'' = Bool b"
    and "invoked = recurring_handler recurringTask \<lparr>ts = t, backfilled = b\<rparr> (job helpers) (ext s)"
  shows "fst (handleRecurringTask env w typeName rawPayload helpers s) = fst invoked \<and>
         ext (snd (handleRecurringTask env w typeName rawPayload helpers s)) = snd invoked \<and>
         calls (snd (handleRecurringTask env w typeName rawPayload helpers s)) =
           calls s @ [RecurringTaskHandler typeName \<lparr>ts = t, backfilled = b\<rparr> (job helpers)] \<and>
         RecurringTaskPayload_properties \<lparr>ts = t, backfilled = b\<rparr> =
           [(''ts'', Date t), (''backfilled'', Bool b)]"
proof -
  have p: "RawCronPayloadSchema (new_Date env) rawPayload = Inr \<lparr>cron = \<lparr>ts = t, backfilled = b\<rparr>\<rparr>"
    using assms(3-6) by (simp add: RawCronPayloadSchema_Inr_iff)
  obtain res e where h: "invoked = (res, e)" by (cases invoked)
  show ?thesis
    using assms(1,2) p h assms(7) [symmetric]
    by (cases res)
       (simp_all add: handleRecurringTask_def logger_def called_def
          RecurringTaskPayload_properties_def)
qed

text \<open>
  C2, the theorem at the firing \<^verbatim>\<open>{_cron: {ts: "2024-01-01T00:00:00Z", backfilled: false}}\<close>.
\<close>

theorem recurring_firing_invokes_handler_witness:
  "recurringTasks example_worker = Some [(''cleanup'', example_recurring)] \<and>
   map_of [(''cleanup'', example_recurring)] ''cleanup'' = Some example_recurring \<and>
   get_property [(''_cron'', Obj [(''ts'', Str ''2024-01-01T00:00:00Z''), (''backfilled'', Bool False)])] ''_cron'' =
     Obj [(''ts'', Str ''2024-01-01T00:00:00Z''), (''backfilled'', Bool False)] \<and>
   new_Date example_env
     (get_property [(''ts'', Str ''2024-01-01T00:00:00Z''), (''backfilled'', Bool False)] ''ts'') =
     Some 1704067200000 \<and>
   get_property [(''ts'', Str ''2024-01-01T00:00:00Z''), (''backfilled'', Bool False)] ''backfilled'' = Bool False \<and>
   fst (handleRecurringTask example_env example_worker ''cleanup''
          (Obj [(''_cron'', Obj [(''ts'', Str ''2024-01-01T00:00:00Z''), (''backfilled'', Bool False)])])
          example_helpers started) = Inr () \<and>
   ext (snd (handleRecurringTask example_env example_worker ''cleanup''
          (Obj [(''_cron'', Obj [(''ts'', Str ''2024-01-01T00:00:00Z''), (''backfilled'', Bool False)])])
          example_helpers started)) = 1 \<and>
   calls (snd (handleRecurringTask example_env example_worker ''cleanup''
          (Obj [(''_cron'', Obj [(''ts'', Str ''2024-01-01T00:00:00Z''), (''backfilled'', Bool False)])])
          example_helpers started)) =
     [RecurringTaskHandler ''cleanup'' \<lparr>ts = 1704067200000, backfilled = False\<rparr> example_job]"
proof -
  have a: "recurringTasks example_worker = Some [(''cleanup'', example_recurring)]"
    by (simp add: example_worker_def)
  have b: "map_of [(''cleanup'', example_recurring)] ''cleanup'' = Some example_recurring"
    by simp
  have c: "get_property [(''_cron'', Obj [(''ts'', Str ''2024-01-01T00:00:00Z''), (''backfilled'', Bool False)])] ''_cron'' =
     Obj [(''ts'', Str ''2024-01-01T00:00:00Z''), (''backfilled'', Bool False)]"
    by (simp add: get_property_def)
  have d: "new_Date example_env
     (get_property [(''ts'', Str ''2024-01-01T00:00:00Z''), (''backfilled'', Bool False)] ''ts'') =
     Some 1704067200000"
    by (simp add: get_property_def example_env_def)
  have e: "get_property [(''ts'', Str ''2024-01-01T00:00:00Z''), (''backfilled'', Bool False)] ''backfilled'' = Bool False"
    by (simp add: get_property_def)
  show ?thesis
    using recurring_firing_invokes_handler [OF a b refl c d e refl, where helpers = example_helpers and s = started] a b c d e
    by (simp add: example_recurring_def example_helpers_def started_def)
qed

text \<open>
  C2, against the claim as stated (the handler receives \<^verbatim>\<open>{firedAt, backfilled}\<close>): at the
  firing \<^verbatim>\<open>{_cron: {ts: "2024-01-01T00:00:00Z", backfilled: false}}\<close> the object the handler
  is called with has no property \<^verbatim>\<open>firedAt\<close>; its date is the property \<^verbatim>\<open>ts\<close>.
\<close>

theorem recurring_handler_payload_has_no_firedAt:
  "calls (snd (handleRecurringTask example_env example_worker ''cleanup''
          (Obj [(''_cron'', Obj [(''ts'', Str ''2024-01-01T00:00:00Z''), (''backfilled'', Bool False)])])
          example_helpers started)) =
     [RecurringTaskHandler ''cleanup'' \<lparr>ts = 1704067200000, backfilled = False\<rparr> example_job] \<and>
   get_property (RecurringTaskPayload_properties \<lparr>ts = 1704067200000, backfilled = False\<rparr>)
     ''firedAt'' = Undefined \<and>
   get_property (RecurringTaskPayload_properties \<lparr>ts = 1704067200000, backfilled = False\<rparr>)
     ''ts'' = Date 1704067200000"
  by (simp add: handleRecurringTask_def example_worker_def example_env_def example_helpers_def
        example_recurring_def started_def logger_def called_def RawCronPayloadSchema_def
        z_key_def get_property_def under_def z_coerce_date_def z_boolean_def
        RecurringTaskPayload_properties_def)

text \<open>
  C7, as the code has it. For a registered recurring task, a firing whose raw payload
  the cron schema rejects fails with the parse error and its issues; the handler is not
  called and nothing is logged but the debug entry that every firing writes on arrival,
  with the type, the raw payload and the job. The schema rejects a payload exactly when
  it is not an object, or its \<^verbatim>\<open>_cron\<close> is not an object, or \<^verbatim>\<open>new Date(ts)\<close> is not a valid
  date, or \<^verbatim>\<open>backfilled\<close> is not a boolean. Every other payload is accepted and the
  handler is called with the date that \<^verbatim>\<open>new Date\<close> made of \<^verbatim>\<open>ts\<close>, also when \<^verbatim>\<open>ts\<close> is
  no timestamp (\<^verbatim>\<open>null\<close>, a boolean).
\<close>

theorem malformed_cron_payload_rejected:
  assumes "recurringTasks w = Some rts"
    and "map_of rts typeName = Some recurringTask"
  shows "(\<not> (\<exists>ps cs t b. rawPayload = Obj ps \<and> get_property ps ''_cron'' = Obj cs \<and>
               new_Date env (get_property cs ''ts'') = Some t \<and>
               get_property cs ''backfilled'' = Bool b) \<longrightarrow>
          (\<exists>issues. handleRecurringTask env w typeName rawPayload helpers s =
             (Inl (FailedToParseRecurringTaskPayload issues),
              logger (DebugReceivedRecurringTask typeName rawPayload (job helpers)) s))) \<and>
         (\<forall>ps cs t b. rawPayload = Obj ps \<and> get_property ps ''_cron'' = Obj cs \<and>
               new_Date env (get_property cs ''ts'') = Some t \<and>
               get_property cs ''backfilled'' = Bool b \<longrightarrow>
            calls (snd (handleRecurringTask env w typeName rawPayload helpers s)) =
              calls s @ [RecurringTaskHandler typeName \<lparr>ts = t, backfilled = b\<rparr> (job helpers)])"
proof (cases "RawCronPayloadSchema (new_Date env) rawPayload")
  case (Inl issues)
  then have "handleRecurringTask env w typeName rawPayload helpers s =
      (Inl (FailedToParseRecurringTaskPayload issues),
       logger (DebugReceivedRecurringTask typeName rawPayload (job helpers)) s)"
    using assms by (simp add: handleRecurringTask_def)
  moreover have "\<not> (\<exists>ps cs t b. rawPayload = Obj ps \<and> get_property ps ''_cron'' = Obj cs \<and>
               new_Date env (get_property cs ''ts'') = Some t \<and>
               get_property cs ''backfilled'' = Bool b)"
  proof
    assume "\<exists>ps cs t b. rawPayload = Obj ps \<and> get_property ps ''_cron'' = Obj cs \<and>
               new_Date env (get_property cs ''ts'') = Some t \<and>
               get_property cs ''backfilled'' = Bool b"
    then obtain ps cs t b where
      "rawPayload = Obj ps" "get_property ps ''_cron'' = Obj cs"
      "new_Date env (get_property cs ''ts'') = Some t" "get_property cs ''backfilled'' = Bool b"
      by blast
    then have "RawCronPayloadSchema (new_Date env) rawPayload =
        Inr \<lparr>cron = \<lparr>ts = t, backfilled = b\<rparr>\<rparr>"
      by (simp add: RawCronPayloadSchema_Inr_iff)
    with Inl show False by simp
  qed
  ultimately show ?thesis by blast
next
  case (Inr parsed)
  have c: "calls (snd (handleRecurringTask env w typeName rawPayload helpers s)) =
      calls s @ [RecurringTaskHandler typeName (cron parsed) (job helpers)]"
    using assms Inr by (rule calls_handleRecurringTask_parsed)
  from Inr obtain ps cs t b where
    sh: "rawPayload = Obj ps" "get_property ps ''_cron'' = Obj cs"
      "new_Date env (get_property cs ''ts'') = Some t" "get_property cs ''backfilled'' = Bool b"
      "parsed = \<lparr>cron = \<lparr>ts = t, backfilled = b\<rparr>\<rparr>"
    by (auto simp: RawCronPayloadSchema_Inr_iff)
  have "calls (snd (handleRecurringTask env w typeName rawPayload helpers s)) =
      calls s @ [RecurringTaskHandler typeName \<lparr>ts = t', backfilled = b'\<rparr> (job helpers)]"
    if "rawPayload = Obj ps'" "get_property ps' ''_cron'' = Obj cs'"
      "new_Date env (get_property cs' ''ts'') = Some t'"
      "get_property cs' ''backfilled'' = Bool b'" for ps' cs' t' b'
    using that sh c by simp
  then show ?thesis using sh by blast
qed

text \<open>
  C7, the theorem at a firing whose payload is a string, which is rejected, and at the
  firing \<^verbatim>\<open>{_cron: {ts: null, backfilled: false}}\<close>, which is accepted.
\<close>

theorem malformed_cron_payload_rejected_witness:
  "recurringTasks example_worker = Some [(''cleanup'', example_recurring)] \<and>
   map_of [(''cleanup'', example_recurring)] ''cleanup'' = Some example_recurring \<and>
   (\<exists>issues. handleRecurringTask example_env example_worker ''cleanup'' (Str ''tick'')
       example_helpers started =
      (Inl (FailedToParseRecurringTaskPayload issues),
       logger (DebugReceivedRecurringTask ''cleanup'' (Str ''tick'') (job example_helpers)) started)) \<and>
   new_Date example_env (get_property [(''ts'', Null), (''backfilled'', Bool False)] ''ts'') = Some 0 \<and>
   calls (snd (handleRecurringTask example_env example_worker ''cleanup''
      (Obj [(''_cron'', Obj [(''ts'', Null), (''backfilled'', Bool False)])])
      example_helpers started)) =
     calls started @
       [RecurringTaskHandler ''cleanup'' \<lparr>ts = 0, backfilled = False\<rparr> (job example_helpers)]"
proof -
  have a: "recurringTasks example_worker = Some [(''cleanup'', example_recurring)]"
    by (simp add: example_worker_def)
  have b: "map_of [(''cleanup'', example_recurring)] ''cleanup'' = Some example_recurring"
    by simp
  have c: "\<not> (\<exists>ps cs t b. Str ''tick'' = Obj ps \<and> get_property ps ''_cron'' = Obj cs \<and>
              new_Date example_env (get_property cs ''ts'') = Some t \<and>
              get_property cs ''backfilled'' = Bool b)"
    by simp
  have d: "get_property [(''_cron'', Obj [(''ts'', Null), (''backfilled'', Bool False)])] ''_cron'' =
      Obj [(''ts'', Null), (''backfilled'', Bool False)]"
    by (simp add: get_property_def)
  have e: "new_Date example_env (get_property [(''ts'', Null), (''backfilled'', Bool False)] ''ts'') = Some 0"
    by (simp add: get_property_def example_env_def)
  have f: "get_property [(''ts'', Null), (''backfilled'', Bool False)] ''backfilled'' = Bool False"
    by (simp add: get_property_def)
  note x = malformed_cron_payload_rejected [OF a b, where env = example_env
             and rawPayload = "Str ''tick''" and helpers = example_helpers and s = started]
  note y = malformed_cron_payload_rejected [OF a b, where env = example_env
             and rawPayload = "Obj [(''_cron'', Obj [(''ts'', Null), (''backfilled'', Bool False)])]"
             and helpers = example_helpers and s = started]
  from x c have "\<exists>issues. handleRecurringTask example_env example_worker ''cleanup'' (Str ''tick'')
       example_helpers started =
      (Inl (FailedToParseRecurringTaskPayload issues),
       logger (DebugReceivedRecurringTask ''cleanup'' (Str ''tick'') (job example_helpers)) started)"
    by blast
  moreover from y d e f have "calls (snd (handleRecurringTask example_env example_worker ''cleanup''
      (Obj [(''_cron'', Obj [(''ts'', Null), (''backfilled'', Bool False)])])
      example_helpers started)) =
     calls started @
       [RecurringTaskHandler ''cleanup'' \<lparr>ts = 0, backfilled = False\<rparr> (job example_helpers)]"
    by blast
  ultimately show ?thesis using a b e by blast
qed

text \<open>
  C7, against the claim as stated, on two counts. The failure is not logged: at a firing
  with a bad date and a number for \<^verbatim>\<open>backfilled\<close> the log holds the arrival entry alone
  and no entry of level error. And a payload that does not match the shape may still run
  the handler: in \<^verbatim>\<open>{_cron: {ts: null, backfilled: false}}\<close> the value of \<^verbatim>\<open>ts\<close> is no
  timestamp, \<^verbatim>\<open>new Date(null)\<close> is the epoch, and the handler is called with it.
\<close>

theorem malformed_cron_payload_not_logged_as_failure:
  "handleRecurringTask example_env example_worker ''cleanup''
     (Obj [(''_cron'', Obj [(''ts'', Str ''yesterday''), (''backfilled'', Num 1)])])
     example_helpers started =
   (Inl (FailedToParseRecurringTaskPayload
           [ZodIssue ''invalid_date'' [Key ''_cron'', Key ''ts''],
            ZodIssue ''invalid_type'' [Key ''_cron'', Key ''backfilled'']]),
    started\<lparr>logs :=
      [DebugReceivedRecurringTask ''cleanup''
         (Obj [(''_cron'', Obj [(''ts'', Str ''yesterday''), (''backfilled'', Num 1)])])
         example_job]\<rparr>) \<and>
   filter is_error_log
     (logs (snd (handleRecurringTask example_env example_worker ''cleanup''
        (Obj [(''_cron'', Obj [(''ts'', Str ''yesterday''), (''backfilled'', Num 1)])])
        example_helpers started))) = [] \<and>
   handleRecurringTask example_env example_worker ''cleanup''
     (Obj [(''_cron'', Obj [(''ts'', Null), (''backfilled'', Bool False)])])
     example_helpers started =
   (Inr (),
    \<lparr>runner = Some 7,
     logs =
       [DebugReceivedRecurringTask ''cleanup''
          (Obj [(''_cron'', Obj [(''ts'', Null), (''backfilled'', Bool False)])]) example_job],
     calls = [RecurringTaskHandler ''cleanup'' \<lparr>ts = 0, backfilled = False\<rparr> example_job],
     ext = 1\<rparr>)"
  by (simp add: handleRecurringTask_def example_worker_def example_env_def example_helpers_def
        example_recurring_def started_def logger_def called_def RawCronPayloadSchema_def
        z_key_def get_property_def under_def z_coerce_date_def z_boolean_def invalid_type_def)

section \<open>The task list\<close>

text \<open>
  C9. A name declared both as a task and as a recurring task is mapped, in the task
  list built at start, to the closure of the recurring task, and running that entry is
  \<^verbatim>\<open>#handleRecurringTask\<close>.
\<close>

theorem recurring_shadows_normal:
  assumes "name \<in> fst ` set (tasks w)"
    and "recurringTasks w = Some rts"
    and "name \<in> fst ` set rts"
  shows "map_of (createTaskListFromTasks w) name = Some (HandleRecurringTask name) \<and>
         run_task env w (HandleRecurringTask name) pl helpers s =
           handleRecurringTask env w name pl helpers s"
  using assms by (simp add: createTaskListFromTasks_def map_of_fold_update)

text \<open>
  C9, the theorem at the name \<^verbatim>\<open>cleanup\<close>, declared in both registries.
\<close>

theorem recurring_shadows_normal_witness:
  "''cleanup'' \<in> fst ` set (tasks example_worker) \<and>
   recurringTasks example_worker = Some [(''cleanup'', example_recurring)] \<and>
   ''cleanup'' \<in> fst ` set [(''cleanup'', example_recurring)] \<and>
   map_of (createTaskListFromTasks example_worker) ''cleanup'' = Some (HandleRecurringTask ''cleanup'')"
proof -
  have a: "''cleanup'' \<in> fst ` set (tasks example_worker)" by (simp add: example_worker_def)
  have b: "recurringTasks example_worker = Some [(''cleanup'', example_recurring)]"
    by (simp add: example_worker_def)
  have c: "''cleanup'' \<in> fst ` set [(''cleanup'', example_recurring)]" by simp
  show ?thesis using recurring_shadows_normal [OF a b c] a b c by simp
qed

end
